theory Spec2Isabelle
  imports Complex_Main "HOL-Library.Sublist"
begin

section \<open>QueueWidget: position, progress bar and turn signal\<close>

text \<open>
  The component receives the optional prop \<^verbatim>\<open>userSTN?: number\<close> and reads
  \<^verbatim>\<open>queueStatus.now_serving\<close> from the queue hook. Token numbers are integers; an
  absent prop is \<open>None\<close>. In a JavaScript condition a number is truthy iff it is not 0
  (the values here are integers, so NaN does not occur) and \<^verbatim>\<open>undefined\<close> is falsy:
  \<^verbatim>\<open>userSTN && ...\<close> passes for \<open>Some t\<close> with \<open>t \<noteq> 0\<close> only. While the hook reports
  \<^verbatim>\<open>loading\<close> the component returns a placeholder; the definitions describe the
  render after that.
\<close>

text \<open>
  \<^verbatim>\<open>const userPosition = userSTN && queueStatus.now_serving
       ? Math.max(0, userSTN - queueStatus.now_serving) : 0;\<close>
\<close>

definition userPosition :: "int option \<Rightarrow> int \<Rightarrow> int" where
  "userPosition userSTN now_serving =
     (case userSTN of
        None \<Rightarrow> 0
      | Some t \<Rightarrow> if t \<noteq> 0 \<and> now_serving \<noteq> 0 then max 0 (t - now_serving) else 0)"

text \<open>
  The width of the progress bar, in percent:
  \<^verbatim>\<open>Math.min(100, Math.max(0, (queueStatus.now_serving / userSTN) * 100))\<close>.
  JavaScript divides numbers without raising: for a divisor 0 the quotient is NaN (0/0),
  Infinity or -Infinity, and \<^verbatim>\<open>Math.min\<close>/\<^verbatim>\<open>Math.max\<close> propagate NaN. The result is
  \<open>None\<close> for NaN and the clamped value otherwise. For a divisor other than 0 the quotient
  is taken over the reals; the bounds 0 and 100 are exact in either arithmetic.
\<close>

definition progressWidth :: "int \<Rightarrow> int \<Rightarrow> real option" where
  "progressWidth now_serving userSTN =
     (if userSTN = 0
      then (if now_serving = 0 then None
            else if 0 < now_serving then Some 100 else Some 0)
      else Some (min 100 (max 0 ((real_of_int now_serving / real_of_int userSTN) * 100))))"

text \<open>
  The bar is rendered under the guard \<^verbatim>\<open>userSTN && userPosition > 0 && (...)\<close>; only then
  is the width expression evaluated. \<open>None\<close>: no bar.
\<close>

definition progressBar :: "int option \<Rightarrow> int \<Rightarrow> real option" where
  "progressBar userSTN now_serving =
     (case userSTN of
        None \<Rightarrow> None
      | Some t \<Rightarrow>
          if t \<noteq> 0 \<and> 0 < userPosition (Some t) now_serving
          then progressWidth now_serving t else None)"

text \<open>
  The "It's your turn!" panel is rendered under
  \<^verbatim>\<open>userSTN && userPosition === 0 && queueStatus.now_serving >= userSTN\<close>.
\<close>

definition yourTurn :: "int option \<Rightarrow> int \<Rightarrow> bool" where
  "yourTurn userSTN now_serving =
     (case userSTN of
        None \<Rightarrow> False
      | Some t \<Rightarrow> t \<noteq> 0 \<and> userPosition (Some t) now_serving = 0 \<and> t \<le> now_serving)"

section \<open>PatientLookup: data\<close>

text \<open>
  Strings are lists of 8-bit characters: a character stands for a UTF-16 code unit below
  256. Row identifiers and amounts are naturals, timestamps are integers that grow with
  time. The fields \<^verbatim>\<open>id\<close> and \<^verbatim>\<open>created_at\<close> occur in both tables; the patient's are
  \<open>p_id\<close> and \<open>p_created_at\<close>, the visit's identifier is \<open>v_id\<close>.
\<close>

record visit =
  v_id :: nat
  status :: string
  queue_position :: nat
  estimated_wait_time :: nat
  payment_status :: string
  payment_amount :: nat
  created_at :: int
  departments :: "string option"
  doctors :: "string option"

record patient =
  p_id :: nat
  uid :: string
  name :: string
  phone :: string
  age :: nat
  p_created_at :: int

text \<open>
  A row of the store's answer: the patient's columns and the embedded \<^verbatim>\<open>visits\<close>
  (read with \<^verbatim>\<open>patient.visits?.[0]\<close>, so possibly absent).
\<close>

record patient_row = patient +
  visits :: "visit list option"

text \<open>An element of \<^verbatim>\<open>searchResults\<close>: \<^verbatim>\<open>{ ...patient, currentVisit: ... }\<close>.\<close>

record search_result = patient_row +
  currentVisit :: "visit option"

text \<open>
  The request that the query builder assembles: \<^verbatim>\<open>from\<close>, \<^verbatim>\<open>select\<close> (the client strips
  the white space of the template literal), \<^verbatim>\<open>or\<close>, \<^verbatim>\<open>eq\<close> (column, value) and
  \<^verbatim>\<open>order\<close> (column, ascending).
\<close>

record request =
  from_table :: string
  select_columns :: string
  or_filters :: string
  eq_filter :: "string \<times> string"
  order_by :: "string \<times> bool"

datatype store_error = Unavailable | BadRequest

text \<open>
  What \<^verbatim>\<open>await\<close> yields: the promise rejects, or it resolves to \<^verbatim>\<open>{ data, error }\<close>.
\<close>

datatype response =
    Rejected store_error
  | Resolved "patient_row list option" "store_error option"

text \<open>The component's state (the four \<^verbatim>\<open>useState\<close> cells).\<close>

record lookup_state =
  searchTerm :: string
  searchResults :: "search_result list"
  isLoading :: bool
  error :: "string option"

section \<open>PatientLookup: handleSearch\<close>

text \<open>
  \<^verbatim>\<open>String.prototype.trim\<close> removes white space and line terminators from both ends;
  these are the ones among the code units below 256.
\<close>

definition isWhiteSpace :: "char \<Rightarrow> bool" where
  "isWhiteSpace c =
     (c \<in> {CHR 0x09, CHR 0x0A, CHR 0x0B, CHR 0x0C, CHR 0x0D, CHR 0x20, CHR 0xA0})"

definition trim :: "string \<Rightarrow> string" where
  "trim s = rev (dropWhile isWhiteSpace (rev (dropWhile isWhiteSpace s)))"

text \<open>
  The builder chain of \<^verbatim>\<open>handleSearch\<close>; the search term is interpolated as it is
  (untrimmed, unescaped) into the \<^verbatim>\<open>or\<close> filter.
\<close>

definition searchRequest :: "string \<Rightarrow> request" where
  "searchRequest q =
     \<lparr>from_table = ''patients'',
      select_columns = ''*,visits!inner(id,status,queue_position,estimated_wait_time,payment_status,payment_amount,created_at,departments(name),doctors(name))'',
      or_filters = ''uid.ilike.%'' @ q @ ''%,phone.ilike.%'' @ q @
                   ''%,name.ilike.%'' @ q @ ''%'',
      eq_filter = (''visits.status'', ''waiting''),
      order_by = (''created_at'', False)\<rparr>"

text \<open>\<^verbatim>\<open>patient.visits?.[0]\<close>: absent for a missing or an empty array.\<close>

definition firstVisit :: "visit list option \<Rightarrow> visit option" where
  "firstVisit vs = (case vs of None \<Rightarrow> None | Some [] \<Rightarrow> None | Some (v # _) \<Rightarrow> Some v)"

definition withCurrentVisit :: "patient_row \<Rightarrow> search_result" where
  "withCurrentVisit patient =
     patient_row.extend patient \<lparr>currentVisit = firstVisit (visits patient)\<rparr>"

text \<open>\<^verbatim>\<open>patients?.map(patient => ({ ...patient, currentVisit: ... })) || []\<close>\<close>

definition toResults :: "patient_row list option \<Rightarrow> search_result list" where
  "toResults patients = (case patients of None \<Rightarrow> [] | Some ps \<Rightarrow> map withCurrentVisit ps)"

text \<open>The \<^verbatim>\<open>catch\<close> block followed by \<^verbatim>\<open>finally\<close> (the console output is left out).\<close>

definition searchFailed :: "lookup_state \<Rightarrow> lookup_state" where
  "searchFailed st =
     st\<lparr>error := Some ''Failed to search patients. Please try again.'', isLoading := False\<rparr>"

text \<open>
  \<^verbatim>\<open>handleSearch\<close>, run against a store \<open>ask\<close> that answers a request: the state once
  the handler has settled, and the requests it issued. A blank term returns before
  anything else is touched; a rejected promise and a returned \<^verbatim>\<open>error\<close> both end in the
  \<^verbatim>\<open>catch\<close> block, before \<^verbatim>\<open>setSearchResults\<close>.
\<close>

definition handleSearch ::
    "(request \<Rightarrow> response) \<Rightarrow> lookup_state \<Rightarrow> lookup_state \<times> request list" where
  "handleSearch ask st =
     (if trim (searchTerm st) = []
      then (st\<lparr>error := Some ''Please enter a search term''\<rparr>, [])
      else
        let st1 = st\<lparr>isLoading := True, error := None\<rparr>;
            req = searchRequest (searchTerm st)
        in (case ask req of
              Rejected err \<Rightarrow> (searchFailed st1, [req])
            | Resolved patients patientsError \<Rightarrow>
                (case patientsError of
                   Some err \<Rightarrow> (searchFailed st1, [req])
                 | None \<Rightarrow>
                     let results = toResults patients;
                         st2 = st1\<lparr>searchResults := results\<rparr>;
                         st3 = (if length results = 0
                                then st2\<lparr>error := Some ''No patients found matching your search''\<rparr>
                                else st2)
                     in (st3\<lparr>isLoading := False\<rparr>, [req]))))"

section \<open>The store behind the client\<close>

text \<open>
  Modelled from the spec: the store that answers the request. The client module
  \<^verbatim>\<open>../lib/supabase\<close> and the hosted store behind it are not among the sources. The spec
  (section 6) gives the store's query capability: a disjunctive case-insensitive match
  across named fields, an equality filter on a field of the joined child record, ordering
  by a timestamp field, and inner-join semantics that drop parent rows with no matching
  child. The request names these in the store's filter syntax (\<^verbatim>\<open>or\<close>, \<^verbatim>\<open>ilike\<close>,
  \<^verbatim>\<open>%\<close>, \<^verbatim>\<open>!inner\<close>), so the definitions below read that syntax as the store does, for the
  operators this request uses; a request outside them is answered with an error.
\<close>

text \<open>
  Modelled from the spec: case folding of the case-insensitive match, on the ASCII
  letters (the spec leaves the folding rules open, section 9).
\<close>

definition lower :: "char \<Rightarrow> char" where
  "lower c = (let n = (of_char c :: nat) in if 65 \<le> n \<and> n \<le> 90 then char_of (n + 32) else c)"

text \<open>
  Modelled from the spec: the pattern match of \<^verbatim>\<open>like\<close>, pattern first. \<^verbatim>\<open>%\<close> stands for
  any sequence of characters, \<^verbatim>\<open>_\<close> for any one character, a backslash makes the next
  character literal (a pattern that ends in a lone backslash matches nothing here; the
  store rejects it).
\<close>

fun like :: "string \<Rightarrow> string \<Rightarrow> bool" where
  "like [] s = (s = [])"
| "like (p # ps) [] = (p = CHR ''%'' \<and> like ps [])"
| "like (p # ps) (c # cs) =
     (if p = CHR ''%'' then like ps (c # cs) \<or> like (p # ps) cs
      else if p = CHR ''_'' then like ps cs
      else if p = CHR 0x5C then (case ps of [] \<Rightarrow> False | e # ps' \<Rightarrow> e = c \<and> like ps' cs)
      else p = c \<and> like ps cs)"

text \<open>Modelled from the spec: \<^verbatim>\<open>ilike\<close>, the case-insensitive \<^verbatim>\<open>like\<close>.\<close>

definition ilike :: "string \<Rightarrow> string \<Rightarrow> bool" where
  "ilike pattern s = like (map lower pattern) (map lower s)"

text \<open>
  Modelled from the spec: in a filter value of \<^verbatim>\<open>like\<close>/\<^verbatim>\<open>ilike\<close> the store reads
  \<^verbatim>\<open>*\<close> as \<^verbatim>\<open>%\<close>.
\<close>

definition star :: "string \<Rightarrow> string" where
  "star v = map (\<lambda>c. if c = CHR ''*'' then CHR ''%'' else c) v"

text \<open>Modelled from the spec: the conditions of an \<^verbatim>\<open>or\<close> filter are separated by commas.\<close>

fun splitOn :: "char \<Rightarrow> string \<Rightarrow> string list" where
  "splitOn d [] = [[]]"
| "splitOn d (c # cs) =
     (if c = d then [] # splitOn d cs
      else (case splitOn d cs of [] \<Rightarrow> [[c]] | w # ws \<Rightarrow> (c # w) # ws))"

text \<open>Modelled from the spec: the named fields of a patient that the filter can match.\<close>

definition textColumn :: "string \<Rightarrow> (patient \<Rightarrow> string) option" where
  "textColumn col =
     (if col = ''uid'' then Some uid
      else if col = ''phone'' then Some phone
      else if col = ''name'' then Some name
      else None)"

text \<open>
  Modelled from the spec: one condition \<^verbatim>\<open>column.operator.value\<close>; the value is all that
  follows the second dot. Only \<^verbatim>\<open>ilike\<close> on a named field is read.
\<close>

definition parseCondition :: "string \<Rightarrow> ((patient \<Rightarrow> string) \<times> string) option" where
  "parseCondition s =
     (let col = takeWhile (\<lambda>c. c \<noteq> CHR ''.'') s;
          rest = drop (Suc (length col)) s;
          oper = takeWhile (\<lambda>c. c \<noteq> CHR ''.'') rest;
          val = drop (Suc (length oper)) rest
      in if length col < length s \<and> length oper < length rest \<and> oper = ''ilike''
         then map_option (\<lambda>f. (f, star val)) (textColumn col)
         else None)"

text \<open>
  Modelled from the spec: the argument of \<^verbatim>\<open>or\<close>. The client sends it in parentheses,
  so a closing parenthesis inside it ends the filter early and the rest does not parse;
  a piece between commas that is not a condition does not parse either.
\<close>

definition parseOr :: "string \<Rightarrow> ((patient \<Rightarrow> string) \<times> string) list option" where
  "parseOr s =
     (if CHR '')'' \<in> set s then None else those (map parseCondition (splitOn CHR '','' s)))"

text \<open>Modelled from the spec: the disjunctive match, true if any condition holds.\<close>

definition matchesAny :: "((patient \<Rightarrow> string) \<times> string) list \<Rightarrow> patient \<Rightarrow> bool" where
  "matchesAny conds p = list_ex (\<lambda>(f, pattern). ilike pattern (f p)) conds"

text \<open>
  Modelled from the spec: the store's content, every patient with all visits that
  reference it (in the order the store keeps them), and whether the store is reachable.
\<close>

record store =
  patients_table :: "(patient \<times> visit list) list"
  fault :: "store_error option"

text \<open>
  Modelled from the spec: the equality filter on the joined child record; the embedded
  visits of a row are those whose status equals the value.
\<close>

definition embed :: "string \<Rightarrow> patient \<times> visit list \<Rightarrow> patient_row" where
  "embed st pv =
     patient.extend (fst pv) \<lparr>visits = Some (filter (\<lambda>v. status v = st) (snd pv))\<rparr>"

text \<open>Modelled from the spec: the join is an inner join when the selection says \<^verbatim>\<open>!inner\<close>.\<close>

definition innerJoin :: "request \<Rightarrow> bool" where
  "innerJoin req = sublist ''visits!inner('' (select_columns req)"

text \<open>
  Modelled from the spec: the rows for a parsed filter. Matching patients get their
  visits embedded under the equality filter, an inner join drops the patients left with
  no visit, and the order clause, which names a column of the patients, sorts the patient
  rows (ties keep the stored order). Nothing orders the visits of a patient.
\<close>

definition selectRows ::
    "store \<Rightarrow> ((patient \<Rightarrow> string) \<times> string) list \<Rightarrow> string \<Rightarrow> bool \<Rightarrow> bool \<Rightarrow> patient_row list" where
  "selectRows db conds st inner ascending =
     (let matched = filter (\<lambda>pv. matchesAny conds (fst pv)) (patients_table db);
          embedded = map (embed st) matched;
          joined = (if inner then filter (\<lambda>r. visits r \<noteq> Some []) embedded else embedded)
      in if ascending then sort_key p_created_at joined
         else sort_key (\<lambda>r. - p_created_at r) joined)"

text \<open>
  Modelled from the spec: the store's answer. An unreachable store and a request that
  does not parse are answered with \<^verbatim>\<open>{ data: null, error }\<close>.
\<close>

definition query :: "store \<Rightarrow> request \<Rightarrow> response" where
  "query db req =
     (case fault db of
        Some err \<Rightarrow> Resolved None (Some err)
      | None \<Rightarrow>
          if from_table req \<noteq> ''patients'' \<or> fst (eq_filter req) \<noteq> ''visits.status'' \<or>
             fst (order_by req) \<noteq> ''created_at''
          then Resolved None (Some BadRequest)
          else (case parseOr (or_filters req) of
                  None \<Rightarrow> Resolved None (Some BadRequest)
                | Some conds \<Rightarrow>
                    Resolved
                      (Some (selectRows db conds (snd (eq_filter req)) (innerJoin req)
                               (snd (order_by req))))
                      None))"

section \<open>Notions used in the statements\<close>

text \<open>
  The spec's match predicate, in its own words: the field contains the query as a
  substring, case-insensitively.
\<close>

definition containsIgnoreCase :: "string \<Rightarrow> string \<Rightarrow> bool" where
  "containsIgnoreCase s q = sublist (map lower q) (map lower s)"





text \<open>The rows that the store returns for the request of \<^verbatim>\<open>handleSearch\<close>.\<close>

definition storeRows :: "store \<Rightarrow> ((patient \<Rightarrow> string) \<times> string) list \<Rightarrow> patient_row list" where
  "storeRows db conds = selectRows db conds ''waiting'' True False"

section \<open>A small clinic\<close>

definition visitAt :: "nat \<Rightarrow> string \<Rightarrow> int \<Rightarrow> visit" where
  "visitAt i st t =
     \<lparr>v_id = i, status = st, queue_position = 1, estimated_wait_time = 15,
      payment_status = ''pending'', payment_amount = 0, created_at = t,
      departments = Some ''General'', doctors = None\<rparr>"

definition ann :: patient where
  "ann = \<lparr>p_id = 1, uid = ''P-001'', name = ''Ann Lee'', phone = ''555-0100'', age = 34,
          p_created_at = 10\<rparr>"

definition anna :: patient where
  "anna = \<lparr>p_id = 2, uid = ''P-002'', name = ''Anna Ruiz'', phone = ''555-0100'', age = 51,
           p_created_at = 20\<rparr>"

definition doe :: patient where
  "doe = \<lparr>p_id = 3, uid = ''P-003'', name = ''Doe, John'', phone = ''555-0199'', age = 47,
          p_created_at = 30\<rparr>"

text \<open>
  Ann waits (visit created at 500), Anna's only visit is completed, Doe was registered
  last and has two waiting visits, created at 100 and at 200.
\<close>

definition clinic :: store where
  "clinic =
     \<lparr>patients_table =
        [(ann, [visitAt 11 ''waiting'' 500]),
         (anna, [visitAt 21 ''completed'' 300]),
         (doe, [visitAt 31 ''waiting'' 100, visitAt 32 ''waiting'' 200])],
      fault = None\<rparr>"

definition idle :: "string \<Rightarrow> lookup_state" where
  "idle q = \<lparr>searchTerm = q, searchResults = [], isLoading = False, error = None\<rparr>"

text \<open>The rows of Ann and of Doe as the store embeds their waiting visits.\<close>

definition annRow :: patient_row where
  "annRow = patient.extend ann \<lparr>visits = Some [visitAt 11 ''waiting'' 500]\<rparr>"


definition annResult :: search_result where
  "annResult = withCurrentVisit annRow"

text \<open>A state that shows the result of an earlier search.\<close>

definition showing :: "string \<Rightarrow> lookup_state" where
  "showing q = \<lparr>searchTerm = q, searchResults = [annResult], isLoading = False, error = None\<rparr>"

section \<open>Properties of the queue widget\<close>

lemma userPosition_nonneg: "0 \<le> userPosition userSTN now_serving"
  by (simp add: userPosition_def split: option.split)

text \<open>
  Claim C9. For every positive caller token, a now-serving counter of 0 gives position 0
  and not \<open>max 0 (callerToken - 0) = callerToken\<close>; a token that is 0 or absent gives
  position 0 as well, whatever the counter.
\<close>

theorem zero_now_serving_collapses_position:
  "0 < t \<Longrightarrow>
     userPosition (Some t) 0 = 0 \<and> userPosition (Some t) 0 \<noteq> max 0 (t - 0) \<and>
     userPosition (Some 0) now_serving = 0 \<and> userPosition None now_serving = 0"
  by (simp add: userPosition_def)

theorem zero_now_serving_collapses_position_witness:
  "(0::int) < 7 \<and> userPosition (Some 7) 0 = 0 \<and> userPosition (Some 7) 0 \<noteq> max 0 (7 - 0) \<and>
     userPosition (Some 0) 4 = 0 \<and> userPosition None 4 = 0"
  using zero_now_serving_collapses_position [of 7 4] by simp

text \<open>
  Claim C4. The position equals \<open>max 0 (callerToken - nowServing)\<close> for all non-negative
  integers with \<open>nowServing \<noteq> 0\<close> or \<open>callerToken = 0\<close>; it is never negative; a
  now-serving counter of 0 gives position 0; an absent token gives position 0.
\<close>

theorem userPosition_formula:
  "(0 \<le> t \<and> 0 \<le> ns \<and> (ns \<noteq> 0 \<or> t = 0) \<longrightarrow> userPosition (Some t) ns = max 0 (t - ns)) \<and>
   0 \<le> userPosition tok ns \<and>
   (ns = 0 \<longrightarrow> userPosition tok ns = 0) \<and>
   userPosition None ns = 0"
  by (auto simp add: userPosition_def split: option.split)

theorem userPosition_formula_witness:
  "0 \<le> (8::int) \<and> 0 \<le> (5::int) \<and> (5::int) \<noteq> 0 \<and>
   userPosition (Some 8) 5 = 3 \<and> userPosition (Some 8) 9 = 0 \<and>
   userPosition (Some 8) 0 = 0 \<and> userPosition None 5 = 0"
  using userPosition_formula [of 8 5 "Some 8"] userPosition_formula [of 8 9 "Some 8"]
    userPosition_formula [of 8 0 "Some 8"]
  by simp

text \<open>
  The formula of claim C4 fails at callerToken = 5, nowServing = 0: the code gives 0,
  the formula 5.
\<close>

theorem userPosition_formula_counterexample:
  "userPosition (Some 5) 0 = 0 \<and> max 0 ((5::int) - 0) = 5 \<and>
   userPosition (Some 5) 0 \<noteq> max 0 (5 - 0)"
  by (simp add: userPosition_def)

text \<open>
  Claim C5. For every set token (a token of 0 is falsy and is handled as unset), the
  "it's your turn" panel is shown iff \<open>nowServing \<ge> callerToken\<close>; it is never shown
  for an unset token.
\<close>

theorem yourTurn_iff:
  "(t \<noteq> 0 \<longrightarrow> (yourTurn (Some t) ns \<longleftrightarrow> t \<le> ns)) \<and>
   \<not> yourTurn None ns \<and> \<not> yourTurn (Some 0) ns"
  by (auto simp add: yourTurn_def userPosition_def)

theorem yourTurn_iff_witness:
  "(8::int) \<noteq> 0 \<and> yourTurn (Some 8) 9 \<and> yourTurn (Some 8) 8 \<and> \<not> yourTurn (Some 8) 5 \<and>
   \<not> yourTurn (Some 8) 0 \<and> \<not> yourTurn None 9"
  using yourTurn_iff [of 8 9] yourTurn_iff [of 8 8] yourTurn_iff [of 8 5] yourTurn_iff [of 8 0]
  by simp

lemma progressWidth_bounds: "progressWidth ns t = Some w \<Longrightarrow> 0 \<le> w \<and> w \<le> 100"
  by (auto simp add: progressWidth_def split: if_splits)

lemma progressWidth_defined: "t \<noteq> 0 \<Longrightarrow> \<exists>w. progressWidth ns t = Some w"
  by (simp add: progressWidth_def)

lemma progressWidth_clamps: "0 < t \<Longrightarrow> t \<le> ns \<Longrightarrow> progressWidth ns t = Some 100"
  by (simp add: progressWidth_def min_def max_def field_simps)

lemma progressBar_shown:
  "progressBar tok ns = Some w \<Longrightarrow>
     \<exists>t. tok = Some t \<and> t \<noteq> 0 \<and> ns \<noteq> 0 \<and> ns < t \<and> progressWidth ns t = Some w"
  by (auto simp add: progressBar_def userPosition_def split: option.splits if_splits)

text \<open>
  Claim C6. The progress ratio (the bar's width in percent, divided by 100) lies in
  \<open>[0, 1]\<close> whenever it is a number, it is a number for every token other than 0, it is
  clamped to 1 when nowServing exceeds a positive token, and for a token that is 0 or
  absent the bar is not rendered, so that no division by zero is evaluated.
\<close>

theorem progress_ratio_clamped:
  "(\<forall>w. progressWidth ns t = Some w \<longrightarrow> 0 \<le> w / 100 \<and> w / 100 \<le> 1) \<and>
   (t \<noteq> 0 \<longrightarrow> (\<exists>w. progressWidth ns t = Some w)) \<and>
   (0 < t \<and> t < ns \<longrightarrow> progressWidth ns t = Some 100) \<and>
   progressBar (Some 0) ns = None \<and> progressBar None ns = None \<and>
   (\<forall>w. progressBar tok ns = Some w \<longrightarrow> tok \<noteq> Some 0 \<and> 0 \<le> w / 100 \<and> w / 100 \<le> 1)"
proof -
  have a: "\<forall>w. progressWidth ns t = Some w \<longrightarrow> 0 \<le> w / 100 \<and> w / 100 \<le> 1"
    using progressWidth_bounds [of ns t] by auto
  have b: "t \<noteq> 0 \<longrightarrow> (\<exists>w. progressWidth ns t = Some w)"
    using progressWidth_defined by blast
  have c: "0 < t \<and> t < ns \<longrightarrow> progressWidth ns t = Some 100"
    using progressWidth_clamps [of t ns] by simp
  have d: "progressBar (Some 0) ns = None \<and> progressBar None ns = None"
    by (simp add: progressBar_def)
  have e: "\<forall>w. progressBar tok ns = Some w \<longrightarrow> tok \<noteq> Some 0 \<and> 0 \<le> w / 100 \<and> w / 100 \<le> 1"
  proof (intro allI impI)
    fix w assume h: "progressBar tok ns = Some w"
    from progressBar_shown [OF h] obtain u where
      u: "tok = Some u" "u \<noteq> 0" "progressWidth ns u = Some w" by blast
    from progressWidth_bounds [OF u(3)] u(1,2)
    show "tok \<noteq> Some 0 \<and> 0 \<le> w / 100 \<and> w / 100 \<le> 1" by simp
  qed
  from a b c d e show ?thesis by blast
qed

theorem progress_ratio_clamped_witness:
  "progressWidth 5 8 = Some 62.5 \<and> (0::real) \<le> 62.5 / 100 \<and> (62.5::real) / 100 \<le> 1 \<and>
   (8::int) \<noteq> 0 \<and> (0::int) < 8 \<and> (8::int) < 9 \<and> progressWidth 9 8 = Some 100 \<and>
   progressBar (Some 8) 5 = Some 62.5 \<and> Some (8::int) \<noteq> Some 0 \<and>
   progressBar (Some 0) 5 = None \<and> progressBar None 5 = None"
  using progress_ratio_clamped [of 5 8 "Some 8"] progress_ratio_clamped [of 9 8 "Some 8"]
  by (simp add: progressWidth_def progressBar_def userPosition_def)

section \<open>Properties of handleSearch\<close>

lemma trim_empty_iff: "trim s = [] \<longleftrightarrow> list_all isWhiteSpace s"
proof -
  have "trim s = [] \<longleftrightarrow> (\<forall>c\<in>set (dropWhile isWhiteSpace s). isWhiteSpace c)"
    by (simp add: trim_def dropWhile_eq_Nil_conv)
  also have "\<dots> \<longleftrightarrow> dropWhile isWhiteSpace s = []"
  proof
    assume h: "\<forall>c\<in>set (dropWhile isWhiteSpace s). isWhiteSpace c"
    show "dropWhile isWhiteSpace s = []"
    proof (rule ccontr)
      assume n: "dropWhile isWhiteSpace s \<noteq> []"
      then have "\<not> isWhiteSpace (hd (dropWhile isWhiteSpace s))"
        by (rule hd_dropWhile)
      moreover from n have "hd (dropWhile isWhiteSpace s) \<in> set (dropWhile isWhiteSpace s)"
        by simp
      ultimately show False using h by blast
    qed
  next
    assume e: "dropWhile isWhiteSpace s = []"
    show "\<forall>c\<in>set (dropWhile isWhiteSpace s). isWhiteSpace c"
      unfolding e by simp
  qed
  also have "\<dots> \<longleftrightarrow> list_all isWhiteSpace s"
    by (simp add: dropWhile_eq_Nil_conv list_all_iff)
  finally show ?thesis .
qed

lemma handleSearch_blank:
  "trim (searchTerm st) = [] \<Longrightarrow>
     handleSearch ask st = (st\<lparr>error := Some ''Please enter a search term''\<rparr>, [])"
  by (simp add: handleSearch_def)

lemma handleSearch_rejected:
  "trim (searchTerm st) \<noteq> [] \<Longrightarrow> ask (searchRequest (searchTerm st)) = Rejected e \<Longrightarrow>
     handleSearch ask st =
       (st\<lparr>isLoading := False, error := Some ''Failed to search patients. Please try again.''\<rparr>,
        [searchRequest (searchTerm st)])"
  by (simp add: handleSearch_def searchFailed_def Let_def)

lemma handleSearch_error:
  "trim (searchTerm st) \<noteq> [] \<Longrightarrow> ask (searchRequest (searchTerm st)) = Resolved d (Some e) \<Longrightarrow>
     handleSearch ask st =
       (st\<lparr>isLoading := False, error := Some ''Failed to search patients. Please try again.''\<rparr>,
        [searchRequest (searchTerm st)])"
  by (simp add: handleSearch_def searchFailed_def Let_def)

lemma handleSearch_ok:
  "trim (searchTerm st) \<noteq> [] \<Longrightarrow> ask (searchRequest (searchTerm st)) = Resolved d None \<Longrightarrow>
     handleSearch ask st =
       (st\<lparr>searchResults := toResults d, isLoading := False,
           error := (if toResults d = []
                     then Some ''No patients found matching your search'' else None)\<rparr>,
        [searchRequest (searchTerm st)])"
  by (simp add: handleSearch_def Let_def)



lemma withCurrentVisit_patient: "patient.truncate (withCurrentVisit row) = patient.truncate row"
  by (simp add: withCurrentVisit_def patient_row.defs patient.defs)

lemma withCurrentVisit_fields:
  "visits (withCurrentVisit row) = visits row"
  "currentVisit (withCurrentVisit row) = firstVisit (visits row)"
  "p_created_at (withCurrentVisit row) = p_created_at row"
  by (simp_all add: withCurrentVisit_def patient_row.defs)

section \<open>Properties of the store\<close>



















lemma innerJoin_searchRequest: "innerJoin (searchRequest q)"
  by (simp add: innerJoin_def searchRequest_def sublist_code)

lemma query_searchRequest:
  "query db (searchRequest q) =
     (case fault db of
        Some err \<Rightarrow> Resolved None (Some err)
      | None \<Rightarrow>
          (case parseOr (or_filters (searchRequest q)) of
             None \<Rightarrow> Resolved None (Some BadRequest)
           | Some conds \<Rightarrow> Resolved (Some (storeRows db conds)) None))"
proof -
  have a: "from_table (searchRequest q) = ''patients''"
      "eq_filter (searchRequest q) = (''visits.status'', ''waiting'')"
      "order_by (searchRequest q) = (''created_at'', False)"
    by (simp_all add: searchRequest_def)
  show ?thesis
    by (simp add: query_def a innerJoin_searchRequest storeRows_def split: option.splits)
qed

lemma query_ok:
  assumes "query db (searchRequest q) = Resolved d None"
  shows "\<exists>conds. parseOr (or_filters (searchRequest q)) = Some conds \<and>
           d = Some (storeRows db conds)"
  using assms by (auto simp add: query_searchRequest split: option.splits)

lemma storeRows_member:
  assumes "r \<in> set (storeRows db conds)"
  shows "\<exists>p vs. (p, vs) \<in> set (patients_table db) \<and> matchesAny conds p \<and>
           r = patient.extend p \<lparr>visits = Some (filter (\<lambda>v. status v = ''waiting'') vs)\<rparr> \<and>
           filter (\<lambda>v. status v = ''waiting'') vs \<noteq> []"
proof -
  from assms obtain pv where pv: "pv \<in> set (patients_table db)" "matchesAny conds (fst pv)"
      "r = embed ''waiting'' pv" "visits r \<noteq> Some []"
    by (auto simp add: storeRows_def selectRows_def)
  from pv(3,4) have "filter (\<lambda>v. status v = ''waiting'') (snd pv) \<noteq> []"
    by (simp add: embed_def patient.defs)
  with pv(1,2,3) show ?thesis
    by (intro exI [of _ "fst pv"] exI [of _ "snd pv"]) (simp add: embed_def)
qed


section \<open>The claims about the patient lookup\<close>

lemma clinic_no_match:
  "query clinic (searchRequest ''zzz'') = Resolved (Some []) None"
  by code_simp

lemma trim_zzz: "trim ''zzz'' \<noteq> []"
  by code_simp

text \<open>
  Claim C1. For every query that matches zero patients, the search replaces the result
  list with the empty list and sets the error message to "No patients found matching
  your search"; this message differs from the one of a failed request and from the one
  of a blank query, so the three outcomes are told apart by the message. A failed
  request always ends with the message "Failed to search patients. Please try again.".
\<close>

theorem no_match_sets_message:
  assumes "trim (searchTerm st) \<noteq> []"
    and "ask (searchRequest (searchTerm st)) = Resolved d None"
    and "d = None \<or> d = Some []"
  shows "handleSearch ask st =
           (st\<lparr>searchResults := [], isLoading := False,
               error := Some ''No patients found matching your search''\<rparr>,
            [searchRequest (searchTerm st)]) \<and>
         error (fst (handleSearch ask st)) \<noteq> Some ''Failed to search patients. Please try again.'' \<and>
         error (fst (handleSearch ask st)) \<noteq> Some ''Please enter a search term'' \<and>
         (ask' (searchRequest (searchTerm st)) = Rejected e \<or>
          ask' (searchRequest (searchTerm st)) = Resolved d' (Some e) \<longrightarrow>
            error (fst (handleSearch ask' st)) = Some ''Failed to search patients. Please try again.'')"
proof -
  from assms(3) have r: "toResults d = []"
    by (auto simp add: toResults_def)
  have ok: "handleSearch ask st =
           (st\<lparr>searchResults := [], isLoading := False,
               error := Some ''No patients found matching your search''\<rparr>,
            [searchRequest (searchTerm st)])"
    using handleSearch_ok [of st ask d, OF assms(1,2)] r by simp
  have failed: "ask' (searchRequest (searchTerm st)) = Rejected e \<or>
          ask' (searchRequest (searchTerm st)) = Resolved d' (Some e) \<longrightarrow>
            error (fst (handleSearch ask' st)) = Some ''Failed to search patients. Please try again.''"
    using handleSearch_rejected [of st ask' e, OF assms(1)]
      handleSearch_error [of st ask' d' e, OF assms(1)]
    by auto
  from ok failed show ?thesis by simp
qed

theorem no_match_sets_message_witness:
  "trim (searchTerm (idle ''zzz'')) \<noteq> [] \<and>
   query clinic (searchRequest (searchTerm (idle ''zzz''))) = Resolved (Some []) None \<and>
   handleSearch (query clinic) (idle ''zzz'') =
     ((idle ''zzz'')\<lparr>searchResults := [], isLoading := False,
         error := Some ''No patients found matching your search''\<rparr>,
      [searchRequest (searchTerm (idle ''zzz''))])"
proof -
  have a: "trim (searchTerm (idle ''zzz'')) \<noteq> []"
    using trim_zzz by (simp add: idle_def)
  have b: "query clinic (searchRequest (searchTerm (idle ''zzz''))) = Resolved (Some []) None"
    using clinic_no_match by (simp add: idle_def)
  from no_match_sets_message [of "idle ''zzz''" "query clinic" "Some []", OF a b] a b
  show ?thesis by simp
qed

text \<open>
  Claim C1 as stated fails: on a query that matches no patient the search does set an
  error, the message in the state's error cell.
\<close>

theorem no_match_counterexample:
  "query clinic (searchRequest ''zzz'') = Resolved (Some []) None \<and>
   searchResults (fst (handleSearch (query clinic) (idle ''zzz''))) = [] \<and>
   error (fst (handleSearch (query clinic) (idle ''zzz''))) =
     Some ''No patients found matching your search'' \<and>
   error (fst (handleSearch (query clinic) (idle ''zzz''))) \<noteq> None"
  by code_simp

text \<open>
  Claim C7. For every blank or whitespace-only query the search ends with the message
  "Please enter a search term", nothing else in the state changes, and no request is
  issued to the store.
\<close>

theorem blank_query_rejected:
  "list_all isWhiteSpace (searchTerm st) \<Longrightarrow>
     handleSearch ask st = (st\<lparr>error := Some ''Please enter a search term''\<rparr>, [])"
  using handleSearch_blank [of st ask] by (simp add: trim_empty_iff)

theorem blank_query_rejected_witness:
  "list_all isWhiteSpace (searchTerm (idle '''')) \<and>
   list_all isWhiteSpace (searchTerm (idle ''   '')) \<and>
   handleSearch (query clinic) (idle '''') =
     ((idle '''')\<lparr>error := Some ''Please enter a search term''\<rparr>, []) \<and>
   handleSearch (query clinic) (idle ''   '') =
     ((idle ''   '')\<lparr>error := Some ''Please enter a search term''\<rparr>, [])"
proof -
  have a: "list_all isWhiteSpace (searchTerm (idle ''''))"
    by (simp add: idle_def)
  have b: "list_all isWhiteSpace (searchTerm (idle ''   ''))"
    by (simp add: idle_def isWhiteSpace_def)
  from blank_query_rejected [of "idle ''''" "query clinic", OF a]
    blank_query_rejected [of "idle ''   ''" "query clinic", OF b] a b
  show ?thesis by simp
qed

text \<open>
  Claim C10. A search that fails, whether the query is blank, the promise rejects or the
  store returns an error, leaves the result list as it was; a search that succeeds
  replaces it with the rows of the answer.
\<close>

theorem failed_search_keeps_results:
  "(trim (searchTerm st) = [] \<or>
    ask (searchRequest (searchTerm st)) = Rejected e \<or>
    ask (searchRequest (searchTerm st)) = Resolved d (Some e) \<longrightarrow>
      searchResults (fst (handleSearch ask st)) = searchResults st) \<and>
   (trim (searchTerm st) \<noteq> [] \<and> ask (searchRequest (searchTerm st)) = Resolved d None \<longrightarrow>
      searchResults (fst (handleSearch ask st)) = toResults d)"
proof (cases "trim (searchTerm st) = []")
  case True
  then show ?thesis by (simp add: handleSearch_blank)
next
  case False
  show ?thesis
    using False handleSearch_rejected [of st ask e, OF False]
      handleSearch_error [of st ask d e, OF False] handleSearch_ok [of st ask d, OF False]
    by auto
qed

lemma clinic_rejects_comma:
  "query clinic (searchRequest ''Doe, J'') = Resolved None (Some BadRequest)"
  by code_simp

lemma trim_spaces: "trim ''  '' = []"
  by code_simp

theorem failed_search_keeps_results_witness:
  "trim (searchTerm (showing ''  '')) = [] \<and>
   searchResults (fst (handleSearch (query clinic) (showing ''  ''))) = [annResult] \<and>
   query clinic (searchRequest (searchTerm (showing ''Doe, J''))) = Resolved None (Some BadRequest) \<and>
   searchResults (fst (handleSearch (query clinic) (showing ''Doe, J''))) = [annResult] \<and>
   trim (searchTerm (showing ''zzz'')) \<noteq> [] \<and>
   query clinic (searchRequest (searchTerm (showing ''zzz''))) = Resolved (Some []) None \<and>
   searchResults (fst (handleSearch (query clinic) (showing ''zzz''))) = []"
proof -
  have a: "trim (searchTerm (showing ''  '')) = []"
    using trim_spaces by (simp add: showing_def)
  have b: "query clinic (searchRequest (searchTerm (showing ''Doe, J''))) = Resolved None (Some BadRequest)"
    using clinic_rejects_comma by (simp add: showing_def)
  have c: "trim (searchTerm (showing ''zzz'')) \<noteq> []"
    using trim_zzz by (simp add: showing_def)
  have d: "query clinic (searchRequest (searchTerm (showing ''zzz''))) = Resolved (Some []) None"
    using clinic_no_match by (simp add: showing_def)
  have s: "searchResults (showing q) = [annResult]" for q
    by (simp add: showing_def)
  from failed_search_keeps_results [of "showing ''  ''" "query clinic"]
    failed_search_keeps_results [of "showing ''Doe, J''" "query clinic" BadRequest None]
    failed_search_keeps_results [of "showing ''zzz''" "query clinic" _ "Some []"]
    a b c d s
  show ?thesis by (simp add: toResults_def)
qed

lemma search_results_of_store:
  assumes "trim (searchTerm st) \<noteq> []"
    and "query db (searchRequest (searchTerm st)) = Resolved d None"
  shows "\<exists>conds. parseOr (or_filters (searchRequest (searchTerm st))) = Some conds \<and>
           searchResults (fst (handleSearch (query db) st)) =
             map withCurrentVisit (storeRows db conds)"
proof -
  from query_ok [OF assms(2)] obtain conds where
    c: "parseOr (or_filters (searchRequest (searchTerm st))) = Some conds"
      "d = Some (storeRows db conds)"
    by blast
  from handleSearch_ok [of st "query db" d, OF assms] c(2)
  have "searchResults (fst (handleSearch (query db) st)) = map withCurrentVisit (storeRows db conds)"
    by (simp add: toResults_def)
  with c(1) show ?thesis by blast
qed

lemma truncate_extend: "patient.truncate (patient.extend p x) = p"
  by (simp add: patient.defs)

lemma visits_extend: "visits (patient.extend p \<lparr>visits = x\<rparr>) = x"
  by (simp add: patient.defs)

lemma search_result_origin:
  assumes "trim (searchTerm st) \<noteq> []"
    and "query db (searchRequest (searchTerm st)) = Resolved d None"
    and "r \<in> set (searchResults (fst (handleSearch (query db) st)))"
  shows "\<exists>vs. (patient.truncate r, vs) \<in> set (patients_table db) \<and>
           visits r = Some (filter (\<lambda>v. status v = ''waiting'') vs) \<and>
           filter (\<lambda>v. status v = ''waiting'') vs \<noteq> [] \<and>
           currentVisit r = Some (hd (filter (\<lambda>v. status v = ''waiting'') vs))"
proof -
  from search_results_of_store [OF assms(1,2)] assms(3) obtain conds row where
    row: "row \<in> set (storeRows db conds)" "r = withCurrentVisit row"
    by auto
  from storeRows_member [OF row(1)] obtain p vs where
    pv: "(p, vs) \<in> set (patients_table db)"
      "row = patient.extend p \<lparr>visits = Some (filter (\<lambda>v. status v = ''waiting'') vs)\<rparr>"
      "filter (\<lambda>v. status v = ''waiting'') vs \<noteq> []"
    by blast
  have t: "patient.truncate r = p"
    unfolding row(2) pv(2) withCurrentVisit_patient by (rule truncate_extend)
  have v: "visits r = Some (filter (\<lambda>v. status v = ''waiting'') vs)"
    unfolding row(2) pv(2) withCurrentVisit_fields by (rule visits_extend)
  have "currentVisit r = firstVisit (Some (filter (\<lambda>v. status v = ''waiting'') vs))"
    unfolding row(2) pv(2) withCurrentVisit_fields visits_extend ..
  with pv(3) have c: "currentVisit r = Some (hd (filter (\<lambda>v. status v = ''waiting'') vs))"
    by (simp add: firstVisit_def split: list.split)
  from pv(1,3) t v c show ?thesis by blast
qed

text \<open>
  Claim C2. Every patient that a successful search returns has at least one visit whose
  status is exactly "waiting" (and the current visit shown is one of those); a patient of
  the store none of whose visits is waiting is in no result, whatever the query matches.
\<close>

theorem search_returns_only_waiting:
  assumes "trim (searchTerm st) \<noteq> []"
    and "query db (searchRequest (searchTerm st)) = Resolved d None"
  shows "(\<forall>r\<in>set (searchResults (fst (handleSearch (query db) st))).
            \<exists>vs v. (patient.truncate r, vs) \<in> set (patients_table db) \<and>
              v \<in> set vs \<and> status v = ''waiting'' \<and> currentVisit r = Some v) \<and>
         (distinct (map fst (patients_table db)) \<and> (p, stored) \<in> set (patients_table db) \<and>
          list_all (\<lambda>v. status v \<noteq> ''waiting'') stored \<longrightarrow>
            p \<notin> patient.truncate ` set (searchResults (fst (handleSearch (query db) st))))"
proof -
  have origin: "\<exists>vs v. (patient.truncate r, vs) \<in> set (patients_table db) \<and>
              v \<in> set vs \<and> status v = ''waiting'' \<and> currentVisit r = Some v"
    if r: "r \<in> set (searchResults (fst (handleSearch (query db) st)))" for r
  proof -
    from search_result_origin [OF assms r] obtain vs where
      vs: "(patient.truncate r, vs) \<in> set (patients_table db)"
        "filter (\<lambda>v. status v = ''waiting'') vs \<noteq> []"
        "currentVisit r = Some (hd (filter (\<lambda>v. status v = ''waiting'') vs))"
      by blast
    from vs(2) have "hd (filter (\<lambda>v. status v = ''waiting'') vs) \<in>
        set (filter (\<lambda>v. status v = ''waiting'') vs)"
      by (rule hd_in_set)
    then have "hd (filter (\<lambda>v. status v = ''waiting'') vs) \<in> set vs"
        "status (hd (filter (\<lambda>v. status v = ''waiting'') vs)) = ''waiting''"
      by simp_all
    with vs(1,3) show ?thesis by blast
  qed
  have excluded: "p \<notin> patient.truncate ` set (searchResults (fst (handleSearch (query db) st)))"
    if d: "distinct (map fst (patients_table db))" and p: "(p, stored) \<in> set (patients_table db)"
      and n: "list_all (\<lambda>v. status v \<noteq> ''waiting'') stored"
  proof
    assume "p \<in> patient.truncate ` set (searchResults (fst (handleSearch (query db) st)))"
    then obtain r where r: "r \<in> set (searchResults (fst (handleSearch (query db) st)))"
        "patient.truncate r = p"
      by auto
    from origin [OF r(1)] r(2) obtain vs v where
      v: "(p, vs) \<in> set (patients_table db)" "v \<in> set vs" "status v = ''waiting''"
      by blast
    from map_of_is_SomeI [OF d p] map_of_is_SomeI [OF d v(1)] have "vs = stored"
      by simp
    with v(2,3) n show False
      by (simp add: list_all_iff)
  qed
  from origin excluded show ?thesis by blast
qed

lemma clinic_phone_search:
  "query clinic (searchRequest ''555-0100'') = Resolved (Some [annRow]) None"
  by code_simp

lemma trim_phone: "trim ''555-0100'' \<noteq> []"
  by code_simp

lemma anna_matches_phone: "containsIgnoreCase (phone anna) ''555-0100''"
  by code_simp

lemma clinic_distinct: "distinct (map fst (patients_table clinic))"
  by code_simp

theorem search_returns_only_waiting_witness:
  "trim (searchTerm (idle ''555-0100'')) \<noteq> [] \<and>
   searchResults (fst (handleSearch (query clinic) (idle ''555-0100''))) = [annResult] \<and>
   (\<exists>vs v. (patient.truncate annResult, vs) \<in> set (patients_table clinic) \<and>
      v \<in> set vs \<and> status v = ''waiting'' \<and> currentVisit annResult = Some v) \<and>
   distinct (map fst (patients_table clinic)) \<and>
   (anna, [visitAt 21 ''completed'' 300]) \<in> set (patients_table clinic) \<and>
   list_all (\<lambda>v. status v \<noteq> ''waiting'') [visitAt 21 ''completed'' 300] \<and>
   containsIgnoreCase (phone anna) ''555-0100'' \<and>
   anna \<notin> patient.truncate ` set (searchResults (fst (handleSearch (query clinic) (idle ''555-0100''))))"
proof -
  have a: "trim (searchTerm (idle ''555-0100'')) \<noteq> []"
    using trim_phone by (simp add: idle_def)
  have b: "query clinic (searchRequest (searchTerm (idle ''555-0100''))) =
     Resolved (Some [annRow]) None"
    using clinic_phone_search by (simp add: idle_def)
  have r: "searchResults (fst (handleSearch (query clinic) (idle ''555-0100''))) = [annResult]"
    using handleSearch_ok [of "idle ''555-0100''" "query clinic", OF a b]
    by (simp add: toResults_def annResult_def)
  have m: "(anna, [visitAt 21 ''completed'' 300]) \<in> set (patients_table clinic)"
    by (simp add: clinic_def)
  have n: "list_all (\<lambda>v. status v \<noteq> ''waiting'') [visitAt 21 ''completed'' 300]"
    by (simp add: visitAt_def)
  from search_returns_only_waiting [of "idle ''555-0100''" clinic _ anna "[visitAt 21 ''completed'' 300]", OF a b]
    a r m n clinic_distinct anna_matches_phone
  show ?thesis by simp
qed















end
